theory Spec2Isabelle
  imports Complex_Main
begin

section \<open>JavaScript primitives used by the handlers\<close>

text \<open>
  A JavaScript string is modelled as a \<open>string\<close> whose characters are code units below 256.
  The primitives keep their JavaScript names, with the suffix \<open>_js\<close> where the plain name
  is taken. \<open>isWhiteSpace\<close> lists the white space and line terminator code units below 256,
  which is what \<open>trim\<close> and \<open>parseInt\<close> strip.
\<close>

definition isWhiteSpace :: "char \<Rightarrow> bool" where
  "isWhiteSpace c = (c \<in> set [CHR 0x09, CHR 0x0A, CHR 0x0B, CHR 0x0C, CHR 0x0D, CHR 0x20, CHR 0xA0])"

definition trim_js :: "string \<Rightarrow> string" where
  "trim_js s = rev (dropWhile isWhiteSpace (rev (dropWhile isWhiteSpace s)))"

fun split_acc :: "char \<Rightarrow> string \<Rightarrow> string \<Rightarrow> string list" where
  "split_acc sep acc [] = [rev acc]"
| "split_acc sep acc (c # cs) =
     (if c = sep then rev acc # split_acc sep [] cs else split_acc sep (c # acc) cs)"

definition split_js :: "string \<Rightarrow> char \<Rightarrow> string list" where
  "split_js s sep = split_acc sep [] s"

fun join_js :: "string list \<Rightarrow> string \<Rightarrow> string" where
  "join_js [] sep = []"
| "join_js [x] sep = x"
| "join_js (x # y # ys) sep = x @ sep @ join_js (y # ys) sep"

fun startsWith :: "string \<Rightarrow> string \<Rightarrow> bool" where
  "startsWith s [] = True"
| "startsWith [] (p # ps) = False"
| "startsWith (c # cs) (p # ps) = (c = p \<and> startsWith cs ps)"

fun includes_js :: "string \<Rightarrow> string \<Rightarrow> bool" where
  "includes_js [] sub = (sub = [])"
| "includes_js (c # cs) sub = (startsWith (c # cs) sub \<or> includes_js cs sub)"


text \<open>
  \<open>parseInt(s, 10)\<close>: leading white space is skipped, one sign is accepted, and the longest
  run of decimal digits is read; \<open>None\<close> stands for \<open>NaN\<close> (no digit). The value is exact,
  as the JavaScript number is for magnitudes below \<open>2 ^ 53\<close>.
\<close>

definition isDigit :: "char \<Rightarrow> bool" where
  "isDigit c = (48 \<le> (of_char c :: nat) \<and> (of_char c :: nat) \<le> 57)"

definition digitsValue :: "string \<Rightarrow> nat" where
  "digitsValue ds = foldl (\<lambda>n c. 10 * n + ((of_char c :: nat) - 48)) 0 ds"

definition parseInt :: "string \<Rightarrow> int option" where
  "parseInt s =
     (let t = dropWhile isWhiteSpace s;
          negative = (case t of [] \<Rightarrow> False | c # r \<Rightarrow> c = CHR ''-'');
          u = (case t of [] \<Rightarrow> [] | c # r \<Rightarrow> if c = CHR ''-'' \<or> c = CHR ''+'' then r else t);
          ds = takeWhile isDigit u
      in if ds = [] then None
         else Some (if negative then - int (digitsValue ds) else int (digitsValue ds)))"

section \<open>Values, storage objects and responses\<close>

text \<open>
  \<open>jsvalue\<close> covers \<open>undefined\<close> and the JSON values. A response is a text, JSON or redirect
  response with its status, or the body of a storage object with the headers that
  \<open>serveFileFromR2\<close> sets (the length is kept as a number).
\<close>

datatype jsvalue =
    JUndefined
  | JNull
  | JBool bool
  | JNumber int
  | JString string
  | JArray "jsvalue list"
  | JObject "(string \<times> jsvalue) list"


record servedFile =
  hdrContentType :: string
  hdrContentLength :: nat
  hdrETag :: string
  hdrCacheControl :: string
  fileBody :: string

datatype response =
    TextResponse string nat
  | JsonResponse jsvalue nat
  | RedirectResponse string nat
  | FileResponse servedFile

datatype js_exception = SyntaxError | TypeError | Error string

text \<open>Truthiness of an optional string (absent and empty are falsy), of an optional number
  (absent and zero are falsy), and the text an optional string gives in a template.\<close>

definition truthy :: "string option \<Rightarrow> bool" where
  "truthy v = (case v of None \<Rightarrow> False | Some s \<Rightarrow> s \<noteq> [])"

definition argText :: "string option \<Rightarrow> string" where
  "argText v = (case v of None \<Rightarrow> ''undefined'' | Some s \<Rightarrow> s)"

definition idTruthy :: "int option \<Rightarrow> bool" where
  "idTruthy i = (case i of None \<Rightarrow> False | Some n \<Rightarrow> n \<noteq> 0)"

section \<open>r2Utils.ts\<close>



section \<open>auth.ts: the login gate\<close>

text \<open>
  \<open>requireLogin\<close> reads the path of the request and the \<open>auth_session\<close> cookie.
  \<open>verify\<close> of hono/jwt is a parameter: it either throws or returns the decoded payload.
  The result is the response, or the call of \<open>next\<close> with the payload stored in the
  context, together with a flag telling whether \<open>deleteCookie\<close> was called.
\<close>

record JwtPayload =
  loggedIn :: bool
  exp_claim :: "nat option"

datatype gate_outcome =
    CallNext "JwtPayload option"
  | Respond response

definition LOGIN_PATH :: string where
  "LOGIN_PATH = ''/login''"

definition allowedPaths :: "string list" where
  "allowedPaths = [LOGIN_PATH, ''/login'', ''/static/'', ''/favicon.ico'']"

definition verifyJwt :: "(string \<Rightarrow> js_exception + JwtPayload) \<Rightarrow> string \<Rightarrow> JwtPayload option" where
  "verifyJwt verify token = (case verify token of Inl e \<Rightarrow> None | Inr decoded \<Rightarrow> Some decoded)"

definition unauthorized :: "string \<Rightarrow> response" where
  "unauthorized message =
     JsonResponse (JObject [(''error'', JString ''Unauthorized''), (''message'', JString message)]) 401"

definition requireLogin ::
  "(string \<Rightarrow> js_exception + JwtPayload) \<Rightarrow> string \<Rightarrow> string option \<Rightarrow> gate_outcome \<times> bool" where
  "requireLogin verify path cookie =
     (if list_ex (\<lambda>allowedPath. startsWith path allowedPath) allowedPaths
      then (CallNext None, False)
      else if \<not> truthy cookie
      then (if startsWith path ''/api_movies/'' \<or> startsWith path ''/api/''
            then (Respond (unauthorized ''Authentication required.''), False)
            else (Respond (RedirectResponse LOGIN_PATH 307), False))
      else (case verifyJwt verify (argText cookie) of
              None \<Rightarrow>
                (if startsWith path ''/api_movies/'' \<or> startsWith path ''/api/''
                 then (Respond (unauthorized ''Invalid session.''), True)
                 else (Respond (RedirectResponse LOGIN_PATH 307), True))
            | Some payload \<Rightarrow>
                if \<not> loggedIn payload
                then (if startsWith path ''/api_movies/'' \<or> startsWith path ''/api/''
                      then (Respond (unauthorized ''Invalid session.''), True)
                      else (Respond (RedirectResponse LOGIN_PATH 307), True))
                else (CallNext (Some payload), False)))"



section \<open>dbUtils.ts\<close>

subsection \<open>parseJsonField\<close>


subsection \<open>buildMovieWhereClauseAndParams\<close>

text \<open>
  The argument map holds the query parameters, which are strings. The function pushes onto
  \<open>conditions\<close> and \<open>sqlParams\<close>; each \<open>if\<close> block of the source is one function on that
  pair, applied in the order of the source.
\<close>

type_synonym argsDict = "string \<Rightarrow> string option"

record whereResult =
  clause :: string
  params :: "string list"

type_synonym builder = "string list \<times> string list"

definition addSearchTerm :: "argsDict \<Rightarrow> builder \<Rightarrow> builder" where
  "addSearchTerm argsDict b =
     (if truthy (argsDict ''SearchTerm'') then
        (let term = ''%'' @ argText (argsDict ''SearchTerm'') @ ''%'';
             searchConditions = [''title LIKE ?'', ''plot LIKE ?'', ''director LIKE ?'',
               ''studio LIKE ?'', ''uniqueid_num LIKE ?'', ''actors LIKE ?'']
         in (fst b @ [''('' @ join_js searchConditions '' OR '' @ '')''],
             snd b @ [term, term, term, term, term, term]))
      else b)"

definition addUniqueidFuzzy :: "argsDict \<Rightarrow> builder \<Rightarrow> builder" where
  "addUniqueidFuzzy argsDict b =
     (if truthy (argsDict ''uniqueid_num_fuzzy'') then
        (fst b @ [''uniqueid_num LIKE ?''],
         snd b @ [''%'' @ argText (argsDict ''uniqueid_num_fuzzy'') @ ''%''])
      else b)"

definition addUniqueidPrefix :: "argsDict \<Rightarrow> builder \<Rightarrow> builder" where
  "addUniqueidPrefix argsDict b =
     (if truthy (argsDict ''uniqueid_num_prefix'') then
        (fst b @ [''uniqueid_num LIKE ?''],
         snd b @ [argText (argsDict ''uniqueid_num_prefix'') @ ''%''])
      else b)"

fun genresForEach :: "string list \<Rightarrow> builder \<Rightarrow> builder" where
  "genresForEach [] gb = gb"
| "genresForEach (genreToken # rest) gb =
     (let genre = trim_js genreToken in
      if genre \<noteq> []
      then genresForEach rest
             (fst gb @ [''genres LIKE ?''], snd gb @ [[CHR ''%'', CHR 0x22] @ genre @ [CHR 0x22, CHR ''%'']])
      else genresForEach rest gb)"

definition addGenres :: "argsDict \<Rightarrow> builder \<Rightarrow> builder" where
  "addGenres argsDict b =
     (if truthy (argsDict ''Genres'') then
        (let gb = genresForEach (split_js (argText (argsDict ''Genres'')) (CHR '','')) ([], snd b);
             genreConditions = fst gb
         in if length genreConditions > 0
            then (fst b @ [''('' @ join_js genreConditions '' OR '' @ '')''], snd gb)
            else (fst b, snd gb))
      else b)"

definition addParentId :: "argsDict \<Rightarrow> builder \<Rightarrow> builder" where
  "addParentId argsDict b =
     (if truthy (argsDict ''ParentId'') then
        (fst b @ [''root_folder = ?''], snd b @ [argText (argsDict ''ParentId'')])
      else b)"

definition addIncludeItemTypes :: "argsDict \<Rightarrow> builder \<Rightarrow> builder" where
  "addIncludeItemTypes argsDict b =
     (if argsDict ''IncludeItemTypes'' = Some ''Movie'' then
        (fst b @ [''(set_name IS NULL OR set_name = '' @ [CHR 0x27, CHR 0x27] @ '')''], snd b)
      else if argsDict ''IncludeItemTypes'' = Some ''Series'' then
        (fst b @ [''(set_name IS NOT NULL AND set_name != '' @ [CHR 0x27, CHR 0x27] @ '')''], snd b)
      else b)"

definition addPersonIds :: "argsDict \<Rightarrow> builder \<Rightarrow> builder" where
  "addPersonIds argsDict b =
     (if truthy (argsDict ''personIds'') then
        (let personName = argText (argsDict ''personIds'');
             personConditions = [''actors LIKE ?'', ''director = ?'', ''director LIKE ?'']
         in (fst b @ [''('' @ join_js personConditions '' OR '' @ '')''],
             snd b @ [[CHR ''%'', CHR 0x22] @ ''name'' @ [CHR 0x22, CHR '':'', CHR 0x22] @ personName @ [CHR 0x22, CHR ''%''],
                      personName,
                      [CHR ''%'', CHR 0x22] @ personName @ [CHR 0x22, CHR ''%'']]))
      else b)"

definition addStudioIds :: "argsDict \<Rightarrow> builder \<Rightarrow> builder" where
  "addStudioIds argsDict b =
     (if truthy (argsDict ''studioIds'') then
        (fst b @ [''studio = ?''], snd b @ [argText (argsDict ''studioIds'')])
      else b)"

definition addSeriesName :: "argsDict \<Rightarrow> builder \<Rightarrow> builder" where
  "addSeriesName argsDict b =
     (if truthy (argsDict ''seriesName'') then
        (fst b @ [''set_name = ?''], snd b @ [argText (argsDict ''seriesName'')])
      else b)"

definition buildMovieWhereClauseAndParams :: "argsDict \<Rightarrow> whereResult" where
  "buildMovieWhereClauseAndParams argsDict =
     (let b = addSeriesName argsDict (addStudioIds argsDict (addPersonIds argsDict
                (addIncludeItemTypes argsDict (addParentId argsDict (addGenres argsDict
                  (addUniqueidPrefix argsDict (addUniqueidFuzzy argsDict
                    (addSearchTerm argsDict ([], [])))))))));
          conditions = fst b;
          sqlParams = snd b
      in \<lparr>clause = (if length conditions > 0 then join_js conditions '' AND '' else ''1=1''),
          params = sqlParams\<rparr>)"


subsection \<open>The predicate as the specification describes it\<close>

text \<open>
  These definitions follow the words of the specification, to be compared with the function
  above: each filter key that is supplied contributes one fixed sub-clause, the genre
  sub-clause is the OR of one fixed comparison per non-empty trimmed token, the sub-clauses
  are joined with AND, and no sub-clause gives the always-true predicate. \<open>subParams\<close> is the
  list of bound values in the same order, and \<open>placeholders\<close> counts the question marks of a
  clause.
\<close>

definition filterKeys :: "string list" where
  "filterKeys = [''SearchTerm'', ''uniqueid_num_fuzzy'', ''uniqueid_num_prefix'', ''Genres'',
     ''ParentId'', ''IncludeItemTypes'', ''personIds'', ''studioIds'', ''seriesName'']"

definition genreTokens :: "argsDict \<Rightarrow> string list" where
  "genreTokens a =
     (if truthy (a ''Genres'')
      then filter (\<lambda>g. g \<noteq> []) (map trim_js (split_js (argText (a ''Genres'')) (CHR '','')))
      else [])"

definition searchTermClause :: "argsDict \<Rightarrow> string list" where
  "searchTermClause a =
     (if truthy (a ''SearchTerm'')
      then [''(title LIKE ? OR plot LIKE ? OR director LIKE ? OR studio LIKE ? OR uniqueid_num LIKE ? OR actors LIKE ?)'']
      else [])"

definition fuzzyClause :: "argsDict \<Rightarrow> string list" where
  "fuzzyClause a = (if truthy (a ''uniqueid_num_fuzzy'') then [''uniqueid_num LIKE ?''] else [])"

definition prefixClause :: "argsDict \<Rightarrow> string list" where
  "prefixClause a = (if truthy (a ''uniqueid_num_prefix'') then [''uniqueid_num LIKE ?''] else [])"

definition genresClause :: "argsDict \<Rightarrow> string list" where
  "genresClause a =
     (if genreTokens a = [] then []
      else [''('' @ join_js (map (\<lambda>g. ''genres LIKE ?'') (genreTokens a)) '' OR '' @ '')''])"

definition parentIdClause :: "argsDict \<Rightarrow> string list" where
  "parentIdClause a = (if truthy (a ''ParentId'') then [''root_folder = ?''] else [])"

definition itemTypesClause :: "argsDict \<Rightarrow> string list" where
  "itemTypesClause a =
     (if a ''IncludeItemTypes'' = Some ''Movie''
      then [''(set_name IS NULL OR set_name = '' @ [CHR 0x27, CHR 0x27] @ '')'']
      else if a ''IncludeItemTypes'' = Some ''Series''
      then [''(set_name IS NOT NULL AND set_name != '' @ [CHR 0x27, CHR 0x27] @ '')'']
      else [])"

definition personIdsClause :: "argsDict \<Rightarrow> string list" where
  "personIdsClause a =
     (if truthy (a ''personIds'') then [''(actors LIKE ? OR director = ? OR director LIKE ?)''] else [])"

definition studioIdsClause :: "argsDict \<Rightarrow> string list" where
  "studioIdsClause a = (if truthy (a ''studioIds'') then [''studio = ?''] else [])"

definition seriesNameClause :: "argsDict \<Rightarrow> string list" where
  "seriesNameClause a = (if truthy (a ''seriesName'') then [''set_name = ?''] else [])"

definition subClauses :: "argsDict \<Rightarrow> string list" where
  "subClauses a =
     searchTermClause a @ fuzzyClause a @ prefixClause a @ genresClause a @ parentIdClause a
     @ itemTypesClause a @ personIdsClause a @ studioIdsClause a @ seriesNameClause a"

definition andOfSubClauses :: "argsDict \<Rightarrow> string" where
  "andOfSubClauses a = (if subClauses a = [] then ''1=1'' else join_js (subClauses a) '' AND '')"

definition placeholders :: "string \<Rightarrow> nat" where
  "placeholders s = length (filter (\<lambda>c. c = CHR ''?'') s)"

definition subParams :: "argsDict \<Rightarrow> string list" where
  "subParams a =
     (if truthy (a ''SearchTerm'') then replicate 6 (''%'' @ argText (a ''SearchTerm'') @ ''%'') else [])
     @ (if truthy (a ''uniqueid_num_fuzzy'') then [''%'' @ argText (a ''uniqueid_num_fuzzy'') @ ''%''] else [])
     @ (if truthy (a ''uniqueid_num_prefix'') then [argText (a ''uniqueid_num_prefix'') @ ''%''] else [])
     @ map (\<lambda>g. [CHR ''%'', CHR 0x22] @ g @ [CHR 0x22, CHR ''%'']) (genreTokens a)
     @ (if truthy (a ''ParentId'') then [argText (a ''ParentId'')] else [])
     @ (if truthy (a ''personIds'')
        then [[CHR ''%'', CHR 0x22] @ ''name'' @ [CHR 0x22, CHR '':'', CHR 0x22] @ argText (a ''personIds'') @ [CHR 0x22, CHR ''%''],
              argText (a ''personIds''),
              [CHR ''%'', CHR 0x22] @ argText (a ''personIds'') @ [CHR 0x22, CHR ''%'']]
        else [])
     @ (if truthy (a ''studioIds'') then [argText (a ''studioIds'')] else [])
     @ (if truthy (a ''seriesName'') then [argText (a ''seriesName'')] else [])"

section \<open>movieApi.ts and its variants\<close>

subsection \<open>GET /items: the two queries\<close>

text \<open>
  The handler prepares a count query and a data query around the clause and binds the
  parameter list to the first, and the parameter list followed by \<open>limit\<close> and
  \<open>startIndex\<close> to the second. The argument map given to
  \<open>buildMovieWhereClauseAndParams\<close> is the query with \<open>StartIndex\<close>, \<open>Limit\<close>,
  \<open>SortBy\<close> and \<open>SortOrder\<close> overwritten, none of which the function reads. The sort
  map of movieApi.ts lacks the last entry of the map of the unnamed variants, and
  \<open>toUpperCase\<close> is a parameter.
\<close>

definition sortMap_unnamed :: "(string \<times> string) list" where
  "sortMap_unnamed =
     [(''SortName'', ''title''), (''Name'', ''title''), (''DateCreated'', ''last_scanned_date''),
      (''PremiereDate'', ''premiered''), (''CommunityRating'', ''rating''),
      (''RunTimeTicks'', ''runtime''), (''movieCount'', ''id'')]"

definition sortMap_movieApi :: "(string \<times> string) list" where
  "sortMap_movieApi =
     [(''SortName'', ''title''), (''Name'', ''title''), (''DateCreated'', ''last_scanned_date''),
      (''PremiereDate'', ''premiered''), (''CommunityRating'', ''rating''),
      (''RunTimeTicks'', ''runtime'')]"

definition validSortCols :: "string list" where
  "validSortCols = [''title'', ''rating'', ''runtime'', ''premiered'', ''uniqueid_num'',
     ''last_scanned_date'', ''id'']"

datatype bindValue = BindText string | BindNumber "int option"

record preparedQuery =
  sqlText :: string
  boundValues :: "bindValue list"

definition itemsQueries ::
  "(string \<times> string) list \<Rightarrow> (string \<Rightarrow> string) \<Rightarrow> argsDict \<Rightarrow> preparedQuery \<times> preparedQuery" where
  "itemsQueries sortMap toUpperCase query =
     (let startIndex = parseInt (if truthy (query ''StartIndex'') then argText (query ''StartIndex'') else ''0'');
          limit = parseInt (if truthy (query ''Limit'') then argText (query ''Limit'') else ''100'');
          sortBy = (if truthy (query ''SortBy'') then argText (query ''SortBy'') else ''PremiereDate'');
          sortOrder = (if truthy (query ''SortOrder'') then argText (query ''SortOrder'') else ''Descending'');
          mapped = (if truthy (map_of sortMap sortBy) then argText (map_of sortMap sortBy) else ''premiered'');
          dbSortBy = (if mapped \<in> set validSortCols then mapped else ''premiered'');
          dbSortOrder = (if toUpperCase sortOrder = ''DESCENDING'' then ''DESC'' else ''ASC'');
          built = buildMovieWhereClauseAndParams query;
          whereParams = params built
      in (\<lparr>sqlText = ''SELECT COUNT(id) as total FROM movies WHERE '' @ clause built,
           boundValues = map BindText whereParams\<rparr>,
          \<lparr>sqlText = ''SELECT * FROM movies WHERE '' @ clause built @ '' ORDER BY '' @ dbSortBy
                      @ '' '' @ dbSortOrder @ '' NULLS LAST LIMIT ? OFFSET ?'',
           boundValues = map BindText whereParams @ [BindNumber limit, BindNumber startIndex]\<rparr>))"

subsection \<open>GET /items: the TotalPages field\<close>

text \<open>
  \<open>Math.ceil(totalCount / limit) || d\<close> with \<open>d = 1\<close> in movieApi.ts and \<open>d = 0\<close> in the two
  unnamed variants of the file. \<open>limit\<close> is the result of \<open>parseInt\<close> (\<open>None\<close> is \<open>NaN\<close>) and
  \<open>totalCount\<close> the integer that COUNT returns. The quotient of two integers below \<open>2 ^ 53\<close>
  has the exact ceiling; a zero \<open>limit\<close> gives an infinity or \<open>NaN\<close>. The sign of a zero is
  not modelled.
\<close>

datatype jsnum = Num int | PosInfinity | NegInfinity | NaN

definition ceilOfQuotient :: "int \<Rightarrow> int option \<Rightarrow> jsnum" where
  "ceilOfQuotient totalCount limit =
     (case limit of
        None \<Rightarrow> NaN
      | Some l \<Rightarrow>
          if l = 0
          then (if totalCount = 0 then NaN else if totalCount > 0 then PosInfinity else NegInfinity)
          else Num (- ((- totalCount) div l)))"

definition orDefault :: "jsnum \<Rightarrow> jsnum \<Rightarrow> jsnum" where
  "orDefault x d = (if x = Num 0 \<or> x = NaN then d else x)"

definition TotalPages_movieApi :: "int \<Rightarrow> int option \<Rightarrow> jsnum" where
  "TotalPages_movieApi totalCount limit = orDefault (ceilOfQuotient totalCount limit) (Num 1)"

definition TotalPages_unnamed :: "int \<Rightarrow> int option \<Rightarrow> jsnum" where
  "TotalPages_unnamed totalCount limit = orDefault (ceilOfQuotient totalCount limit) (Num 0)"

subsection \<open>GET /images/poster and /images/fanart: serveMovieImage\<close>






subsection \<open>The related-items endpoint\<close>

text \<open>
  The two result sets come from the database already mapped by \<open>movieRowToDict\<close>; only the
  \<open>Id\<close> of a mapped record matters to the blending loop. \<open>relatedIdsSoFar\<close> is the second
  component of the loop state. movieApi.ts reads the cap from the environment with
  \<open>parseInt\<close>, the variants fix it to 2; a cap that is not a number fails the test
  \<open>> 0\<close> as a non-positive one does.
\<close>

record movieDict =
  Id_field :: "int option"
  Name_field :: "string option"

fun genrePickLoop ::
  "int \<Rightarrow> movieDict list \<Rightarrow> movieDict list \<times> int option set \<Rightarrow> movieDict list \<times> int option set" where
  "genrePickLoop NUM_RANDOM_GENRE_PICKS [] st = st"
| "genrePickLoop NUM_RANDOM_GENRE_PICKS (movieDict # rest) st =
     (if int (length (fst st)) \<ge> NUM_RANDOM_GENRE_PICKS then st
      else if idTruthy (Id_field movieDict) \<and> Id_field movieDict \<notin> snd st
      then genrePickLoop NUM_RANDOM_GENRE_PICKS rest
             (fst st @ [movieDict], insert (Id_field movieDict) (snd st))
      else genrePickLoop NUM_RANDOM_GENRE_PICKS rest st)"

definition genreRandomRelatedList :: "int \<Rightarrow> movieDict list \<Rightarrow> movieDict list \<Rightarrow> movieDict list" where
  "genreRandomRelatedList NUM_RANDOM_GENRE_PICKS primaryRelatedList genreCandidatesList =
     (if NUM_RANDOM_GENRE_PICKS > 0
      then fst (genrePickLoop NUM_RANDOM_GENRE_PICKS genreCandidatesList
                  ([], set (map Id_field primaryRelatedList)))
      else [])"

definition precomputed_related :: "int \<Rightarrow> movieDict list \<Rightarrow> movieDict list \<Rightarrow> movieDict list" where
  "precomputed_related NUM_RANDOM_GENRE_PICKS primaryRelatedList genreCandidatesList =
     primaryRelatedList
       @ genreRandomRelatedList NUM_RANDOM_GENRE_PICKS primaryRelatedList genreCandidatesList"

subsection \<open>The endpoint that creates a collection\<close>

type_synonym collectionsTable = "(int \<times> string) list"

text \<open>
  Modelled from the spec: the \<open>movie_collections\<close> table and the statement
  \<open>INSERT INTO movie_collections (name) VALUES (?) RETURNING id\<close> run by the database, which
  are not part of the sources. The table is the list of its rows (id, name); the name column
  is unique, a violation throws an error whose message names the failed UNIQUE constraint and
  leaves the table as it was, and a successful insert appends the row under a fresh positive id
  and returns it.
\<close>

definition insertCollectionReturningId ::
  "collectionsTable \<Rightarrow> string \<Rightarrow> (string + int option) \<times> collectionsTable" where
  "insertCollectionReturningId rows name =
     (if name \<in> snd ` set rows
      then (Inl ''D1_ERROR: UNIQUE constraint failed: movie_collections.name'', rows)
      else (let newId = 1 + foldr max (map fst rows) 0
            in (Inr (Some newId), rows @ [(newId, name)])))"

definition collectionCatch :: "string \<Rightarrow> response" where
  "collectionCatch message =
     (if includes_js message ''UNIQUE constraint failed''
      then JsonResponse (JObject [(''error'', JString ''Collection name already exists'')]) 409
      else JsonResponse (JObject [(''error'', JString ''Database error''), (''details'', JString message)]) 500)"

definition postMovieCollections :: "collectionsTable \<Rightarrow> string option \<Rightarrow> response \<times> collectionsTable" where
  "postMovieCollections DB_MOVIES payloadName =
     (let collectionName = map_option trim_js payloadName in
      if \<not> truthy collectionName
      then (JsonResponse (JObject [(''error'', JString ''Name required'')]) 400, DB_MOVIES)
      else (case insertCollectionReturningId DB_MOVIES (argText collectionName) of
              (Inr result, db') \<Rightarrow>
                (case result of
                   Some newId \<Rightarrow>
                     if newId \<noteq> 0
                     then (JsonResponse (JObject [(''id'', JNumber newId),
                              (''name'', JString (argText collectionName))]) 201, db')
                     else (collectionCatch ''Failed to get ID of new collection.'', db')
                 | None \<Rightarrow> (collectionCatch ''Failed to get ID of new collection.'', db'))
            | (Inl message, db') \<Rightarrow> (collectionCatch message, db')))"

section \<open>Properties of the login gate\<close>




text \<open>
  Claim C10. The allow-list is matched by prefix: any path that begins with /login, /static/
  or /favicon.ico reaches the next handler without the cookie being read or verified,
  whatever the cookie and the verifier are.
\<close>

theorem requireLogin_prefix_bypass:
  assumes "startsWith path ''/login'' \<or> startsWith path ''/static/'' \<or> startsWith path ''/favicon.ico''"
  shows "requireLogin verify path cookie = (CallNext None, False)"
  using assms
  by (auto simp: requireLogin_def allowedPaths_def LOGIN_PATH_def)

theorem requireLogin_prefix_bypass_witness:
  "startsWith ''/loginXYZ'' ''/login''
   \<and> requireLogin (\<lambda>t. Inl (Error ''bad signature'')) ''/loginXYZ'' None = (CallNext None, False)
   \<and> startsWith ''/login/anything'' ''/login''
   \<and> requireLogin (\<lambda>t. Inl (Error ''bad signature'')) ''/login/anything'' (Some ''forged'')
        = (CallNext None, False)"
proof -
  have a: "startsWith ''/loginXYZ'' ''/login''" and b: "startsWith ''/login/anything'' ''/login''"
    by simp_all
  show ?thesis
    using requireLogin_prefix_bypass [of "''/loginXYZ''" "\<lambda>t. Inl (Error ''bad signature'')" None]
      requireLogin_prefix_bypass [of "''/login/anything''" "\<lambda>t. Inl (Error ''bad signature'')" "Some ''forged''"]
      a b
    by simp
qed

section \<open>Properties of parseJsonField\<close>



section \<open>Properties of buildMovieWhereClauseAndParams\<close>

lemma genresForEach_closed:
  "genresForEach toks gb =
     (fst gb @ map (\<lambda>g. ''genres LIKE ?'') (filter (\<lambda>g. g \<noteq> []) (map trim_js toks)),
      snd gb @ map (\<lambda>g. [CHR ''%'', CHR 0x22] @ g @ [CHR 0x22, CHR ''%''])
                 (filter (\<lambda>g. g \<noteq> []) (map trim_js toks)))"
  by (induction toks arbitrary: gb) (simp_all add: Let_def)

lemma fst_addSearchTerm: "fst (addSearchTerm a b) = fst b @ searchTermClause a"
  by (simp add: addSearchTerm_def searchTermClause_def Let_def)

lemma fst_addUniqueidFuzzy: "fst (addUniqueidFuzzy a b) = fst b @ fuzzyClause a"
  by (simp add: addUniqueidFuzzy_def fuzzyClause_def)

lemma fst_addUniqueidPrefix: "fst (addUniqueidPrefix a b) = fst b @ prefixClause a"
  by (simp add: addUniqueidPrefix_def prefixClause_def)

lemma fst_addGenres: "fst (addGenres a b) = fst b @ genresClause a"
  by (simp add: addGenres_def genresClause_def genreTokens_def genresForEach_closed Let_def)

lemma fst_addParentId: "fst (addParentId a b) = fst b @ parentIdClause a"
  by (simp add: addParentId_def parentIdClause_def)

lemma fst_addIncludeItemTypes: "fst (addIncludeItemTypes a b) = fst b @ itemTypesClause a"
  by (simp add: addIncludeItemTypes_def itemTypesClause_def)

lemma fst_addPersonIds: "fst (addPersonIds a b) = fst b @ personIdsClause a"
  by (simp add: addPersonIds_def personIdsClause_def Let_def)

lemma fst_addStudioIds: "fst (addStudioIds a b) = fst b @ studioIdsClause a"
  by (simp add: addStudioIds_def studioIdsClause_def)

lemma fst_addSeriesName: "fst (addSeriesName a b) = fst b @ seriesNameClause a"
  by (simp add: addSeriesName_def seriesNameClause_def)

lemmas fst_add = fst_addSearchTerm fst_addUniqueidFuzzy fst_addUniqueidPrefix fst_addGenres
  fst_addParentId fst_addIncludeItemTypes fst_addPersonIds fst_addStudioIds fst_addSeriesName

lemma clause_closed: "clause (buildMovieWhereClauseAndParams a) = andOfSubClauses a"
  by (simp add: buildMovieWhereClauseAndParams_def Let_def fst_add andOfSubClauses_def subClauses_def)


lemma snd_addSearchTerm:
  "snd (addSearchTerm a b) =
     snd b @ (if truthy (a ''SearchTerm'') then replicate 6 (''%'' @ argText (a ''SearchTerm'') @ ''%'') else [])"
  by (simp add: addSearchTerm_def Let_def numeral_eq_Suc)

lemma snd_addUniqueidFuzzy:
  "snd (addUniqueidFuzzy a b) =
     snd b @ (if truthy (a ''uniqueid_num_fuzzy'') then [''%'' @ argText (a ''uniqueid_num_fuzzy'') @ ''%''] else [])"
  by (simp add: addUniqueidFuzzy_def)

lemma snd_addUniqueidPrefix:
  "snd (addUniqueidPrefix a b) =
     snd b @ (if truthy (a ''uniqueid_num_prefix'') then [argText (a ''uniqueid_num_prefix'') @ ''%''] else [])"
  by (simp add: addUniqueidPrefix_def)

lemma snd_addGenres:
  "snd (addGenres a b) =
     snd b @ map (\<lambda>g. [CHR ''%'', CHR 0x22] @ g @ [CHR 0x22, CHR ''%'']) (genreTokens a)"
  by (simp add: addGenres_def genreTokens_def genresForEach_closed Let_def)

lemma snd_addParentId:
  "snd (addParentId a b) = snd b @ (if truthy (a ''ParentId'') then [argText (a ''ParentId'')] else [])"
  by (simp add: addParentId_def)

lemma snd_addIncludeItemTypes: "snd (addIncludeItemTypes a b) = snd b"
  by (simp add: addIncludeItemTypes_def)

lemma snd_addPersonIds:
  "snd (addPersonIds a b) =
     snd b @ (if truthy (a ''personIds'')
        then [[CHR ''%'', CHR 0x22] @ ''name'' @ [CHR 0x22, CHR '':'', CHR 0x22] @ argText (a ''personIds'') @ [CHR 0x22, CHR ''%''],
              argText (a ''personIds''),
              [CHR ''%'', CHR 0x22] @ argText (a ''personIds'') @ [CHR 0x22, CHR ''%'']]
        else [])"
  by (simp add: addPersonIds_def Let_def)

lemma snd_addStudioIds:
  "snd (addStudioIds a b) = snd b @ (if truthy (a ''studioIds'') then [argText (a ''studioIds'')] else [])"
  by (simp add: addStudioIds_def)

lemma snd_addSeriesName:
  "snd (addSeriesName a b) = snd b @ (if truthy (a ''seriesName'') then [argText (a ''seriesName'')] else [])"
  by (simp add: addSeriesName_def)

lemmas snd_add = snd_addSearchTerm snd_addUniqueidFuzzy snd_addUniqueidPrefix snd_addGenres
  snd_addParentId snd_addIncludeItemTypes snd_addPersonIds snd_addStudioIds snd_addSeriesName

lemma params_closed: "params (buildMovieWhereClauseAndParams a) = subParams a"
  unfolding buildMovieWhereClauseAndParams_def Let_def subParams_def
  by (simp only: snd_add whereResult.simps snd_conv append_Nil append_assoc)

lemma truthy_None: "truthy None = False"
  by (simp add: truthy_def)

lemma no_filters_subClauses:
  assumes "\<forall>k\<in>set filterKeys. a k = None"
  shows "subClauses a = []" and "subParams a = []"
  using assms
  by (simp_all add: filterKeys_def subClauses_def subParams_def searchTermClause_def fuzzyClause_def
      prefixClause_def genresClause_def genreTokens_def parentIdClause_def itemTypesClause_def
      personIdsClause_def studioIdsClause_def seriesNameClause_def truthy_None)

lemmas clause_defs = subClauses_def searchTermClause_def fuzzyClause_def prefixClause_def
  genresClause_def genreTokens_def parentIdClause_def itemTypesClause_def personIdsClause_def
  studioIdsClause_def seriesNameClause_def truthy_def argText_def split_js_def trim_js_def
  isWhiteSpace_def

text \<open>
  Claim C2. With none of the nine filter keys in the argument map the result is the clause
  \<open>1=1\<close> with no parameter. In general the clause is the sub-clauses of the supplied filters
  joined with AND (\<open>1=1\<close> when there is none), where the sub-clause of the Genres key is the
  parenthesised OR of one comparison per non-empty trimmed token of the comma-separated value.
\<close>

theorem where_clause_structure:
  "((\<forall>k\<in>set filterKeys. argsDict k = None) \<longrightarrow>
       buildMovieWhereClauseAndParams argsDict = \<lparr>clause = ''1=1'', params = []\<rparr>)
   \<and> clause (buildMovieWhereClauseAndParams argsDict) =
       (if subClauses argsDict = [] then ''1=1'' else join_js (subClauses argsDict) '' AND '')"
proof (intro conjI impI)
  assume none: "\<forall>k\<in>set filterKeys. argsDict k = None"
  have "clause (buildMovieWhereClauseAndParams argsDict) = ''1=1''"
    using no_filters_subClauses(1) [OF none] by (simp add: clause_closed andOfSubClauses_def)
  moreover have "params (buildMovieWhereClauseAndParams argsDict) = []"
    using no_filters_subClauses(2) [OF none] by (simp add: params_closed)
  ultimately show "buildMovieWhereClauseAndParams argsDict = \<lparr>clause = ''1=1'', params = []\<rparr>"
    by simp
next
  show "clause (buildMovieWhereClauseAndParams argsDict) =
       (if subClauses argsDict = [] then ''1=1'' else join_js (subClauses argsDict) '' AND '')"
    by (simp add: clause_closed andOfSubClauses_def)
qed

theorem where_clause_structure_witness:
  "list_all (\<lambda>k. Map.empty k = (None :: string option)) filterKeys
   \<and> buildMovieWhereClauseAndParams Map.empty = \<lparr>clause = ''1=1'', params = []\<rparr>
   \<and> clause (buildMovieWhereClauseAndParams
         [''Genres'' \<mapsto> ''Action, Drama'', ''studioIds'' \<mapsto> ''Ghibli''])
       = ''(genres LIKE ? OR genres LIKE ?) AND studio = ?''"
proof -
  have s: "subClauses [''Genres'' \<mapsto> ''Action, Drama'', ''studioIds'' \<mapsto> ''Ghibli'']
           = [''(genres LIKE ? OR genres LIKE ?)'', ''studio = ?'']"
    by (simp add: clause_defs)
  show ?thesis
    using where_clause_structure [of Map.empty]
      where_clause_structure [of "[''Genres'' \<mapsto> ''Action, Drama'', ''studioIds'' \<mapsto> ''Ghibli'']"]
    by (simp add: s filterKeys_def)
qed

lemma placeholders_append: "placeholders (xs @ ys) = placeholders xs + placeholders ys"
  by (simp add: placeholders_def)

lemma placeholders_join:
  "placeholders sep = 0 \<Longrightarrow> placeholders (join_js xs sep) = sum_list (map placeholders xs)"
  by (induction xs sep rule: join_js.induct) (simp_all add: placeholders_append, simp add: placeholders_def)

lemma placeholders_Cons:
  "placeholders (c # s) = (if c = CHR ''?'' then 1 else 0) + placeholders s"
  by (simp add: placeholders_def)

lemma placeholders_genre_join:
  "placeholders (join_js (map (\<lambda>g. ''genres LIKE ?'') ts) '' OR '') = length ts"
proof -
  have or0: "placeholders '' OR '' = 0" by (simp add: placeholders_def)
  have "sum_list (map placeholders (map (\<lambda>g. ''genres LIKE ?'') ts)) = length ts"
    by (induction ts) (simp_all add: placeholders_def)
  then show ?thesis
    by (simp only: placeholders_join [OF or0])
qed

lemma placeholders_genres:
  "sum_list (map placeholders (genresClause a)) = length (genreTokens a)"
proof (cases "genreTokens a = []")
  case True
  then show ?thesis by (simp add: genresClause_def)
next
  case False
  have "placeholders (''('' @ join_js (map (\<lambda>g. ''genres LIKE ?'') (genreTokens a)) '' OR '' @ '')'')
          = length (genreTokens a)"
    by (simp only: placeholders_append placeholders_genre_join) (simp add: placeholders_def)
  with False show ?thesis
    by (simp only: genresClause_def if_False list.map sum_list.Cons sum_list.Nil add_0_right)
qed

lemma placeholders_subClauses:
  "sum_list (map placeholders (subClauses a)) = length (subParams a)"
proof -
  have "sum_list (map placeholders (searchTermClause a)) =
        length (if truthy (a ''SearchTerm'') then replicate 6 (''%'' @ argText (a ''SearchTerm'') @ ''%'') else [])"
    by (simp add: searchTermClause_def placeholders_def)
  moreover have "sum_list (map placeholders (fuzzyClause a)) = (if truthy (a ''uniqueid_num_fuzzy'') then 1 else 0)"
    by (simp add: fuzzyClause_def placeholders_def)
  moreover have "sum_list (map placeholders (prefixClause a)) = (if truthy (a ''uniqueid_num_prefix'') then 1 else 0)"
    by (simp add: prefixClause_def placeholders_def)
  moreover have "sum_list (map placeholders (parentIdClause a)) = (if truthy (a ''ParentId'') then 1 else 0)"
    by (simp add: parentIdClause_def placeholders_def)
  moreover have "sum_list (map placeholders (itemTypesClause a)) = 0"
    by (simp add: itemTypesClause_def placeholders_def)
  moreover have "sum_list (map placeholders (personIdsClause a)) = (if truthy (a ''personIds'') then 3 else 0)"
    by (simp add: personIdsClause_def placeholders_def)
  moreover have "sum_list (map placeholders (studioIdsClause a)) = (if truthy (a ''studioIds'') then 1 else 0)"
    by (simp add: studioIdsClause_def placeholders_def)
  moreover have "sum_list (map placeholders (seriesNameClause a)) = (if truthy (a ''seriesName'') then 1 else 0)"
    by (simp add: seriesNameClause_def placeholders_def)
  ultimately show ?thesis
    by (simp add: subClauses_def subParams_def placeholders_genres)
qed

lemma placeholders_validSortCols: "c \<in> set validSortCols \<Longrightarrow> placeholders c = 0"
  by (auto simp: validSortCols_def placeholders_def)

lemma placeholders_premiered: "placeholders ''premiered'' = 0"
  by (simp add: placeholders_def)

lemma placeholders_fixed:
  "placeholders ''SELECT COUNT(id) as total FROM movies WHERE '' = 0"
  "placeholders ''SELECT * FROM movies WHERE '' = 0"
  "placeholders '' ORDER BY '' = 0"
  "placeholders '' '' = 0"
  "placeholders ''DESC'' = 0"
  "placeholders ''ASC'' = 0"
  "placeholders '' NULLS LAST LIMIT ? OFFSET ?'' = 2"
  by (simp_all add: placeholders_def)

text \<open>
  Claim C9. The clause holds exactly as many question marks as the parameter list has
  entries, for every argument map; and each of the two queries that the listing handler
  prepares from it holds as many question marks as the values bound to it.
\<close>

theorem placeholders_match_params:
  "placeholders (clause (buildMovieWhereClauseAndParams argsDict))
     = length (params (buildMovieWhereClauseAndParams argsDict))
   \<and> placeholders (sqlText (fst (itemsQueries sortMap toUpperCase argsDict)))
     = length (boundValues (fst (itemsQueries sortMap toUpperCase argsDict)))
   \<and> placeholders (sqlText (snd (itemsQueries sortMap toUpperCase argsDict)))
     = length (boundValues (snd (itemsQueries sortMap toUpperCase argsDict)))"
proof -
  have core: "placeholders (clause (buildMovieWhereClauseAndParams argsDict))
     = length (params (buildMovieWhereClauseAndParams argsDict))"
  proof (cases "subClauses argsDict = []")
    case True
    then have "sum_list (map placeholders (subClauses argsDict)) = 0" by simp
    then have "length (subParams argsDict) = 0" by (simp add: placeholders_subClauses)
    with True show ?thesis
      by (simp add: clause_closed params_closed andOfSubClauses_def placeholders_def)
  next
    case False
    have and0: "placeholders '' AND '' = 0" by (simp add: placeholders_def)
    from False show ?thesis
      by (simp add: clause_closed params_closed andOfSubClauses_def placeholders_join [OF and0]
          placeholders_subClauses)
  qed
  have sortcol: "placeholders (if m \<in> set validSortCols then m else ''premiered'') = 0" for m
    by (simp add: placeholders_validSortCols placeholders_premiered)
  have order: "placeholders (if b then ''DESC'' else ''ASC'') = 0" for b
    by (simp add: placeholders_fixed)
  show ?thesis
    using core
    by (simp only: itemsQueries_def Let_def fst_conv snd_conv preparedQuery.simps
        placeholders_append placeholders_fixed sortcol order length_append length_map list.size)
      simp
qed


theorem placeholders_match_params_witness:
  "length (params (buildMovieWhereClauseAndParams
      [''SearchTerm'' \<mapsto> ''a?b'', ''Genres'' \<mapsto> ''x,,y''])) = 8
   \<and> placeholders (clause (buildMovieWhereClauseAndParams
      [''SearchTerm'' \<mapsto> ''a?b'', ''Genres'' \<mapsto> ''x,,y''])) = 8
   \<and> placeholders (sqlText (snd (itemsQueries sortMap_unnamed (\<lambda>t. t)
      [''SearchTerm'' \<mapsto> ''a?b'', ''Genres'' \<mapsto> ''x,,y'']))) = 10
   \<and> length (boundValues (snd (itemsQueries sortMap_unnamed (\<lambda>t. t)
      [''SearchTerm'' \<mapsto> ''a?b'', ''Genres'' \<mapsto> ''x,,y'']))) = 10"
proof -
  let ?a = "[''SearchTerm'' \<mapsto> ''a?b'', ''Genres'' \<mapsto> ''x,,y'']"
  have "subParams ?a
        = replicate 6 ''%a?b%'' @ [[CHR ''%'', CHR 0x22, CHR ''x'', CHR 0x22, CHR ''%''],
            [CHR ''%'', CHR 0x22, CHR ''y'', CHR 0x22, CHR ''%'']]"
    by (simp add: subParams_def clause_defs)
  then have n: "length (params (buildMovieWhereClauseAndParams ?a)) = 8"
    by (simp add: params_closed)
  then have m: "length (boundValues (snd (itemsQueries sortMap_unnamed (\<lambda>t. t) ?a))) = 10"
    by (simp add: itemsQueries_def Let_def)
  show ?thesis
    using placeholders_match_params [where argsDict = ?a and sortMap = sortMap_unnamed
        and toUpperCase = "\<lambda>t. t"] n m
    by simp
qed

text \<open>
  Two argument maps with the same keys and no genre list whose clauses differ: the value of
  IncludeItemTypes selects between two fixed fragments.
\<close>

theorem clause_values_counterexample:
  "dom [''IncludeItemTypes'' \<mapsto> ''Movie''] = dom [''IncludeItemTypes'' \<mapsto> ''Series'']
   \<and> [''IncludeItemTypes'' \<mapsto> ''Movie''] ''Genres'' = None
   \<and> [''IncludeItemTypes'' \<mapsto> ''Series''] ''Genres'' = None
   \<and> clause (buildMovieWhereClauseAndParams [''IncludeItemTypes'' \<mapsto> ''Movie''])
       = ''(set_name IS NULL OR set_name = '' @ [CHR 0x27, CHR 0x27] @ '')''
   \<and> clause (buildMovieWhereClauseAndParams [''IncludeItemTypes'' \<mapsto> ''Series''])
       = ''(set_name IS NOT NULL AND set_name != '' @ [CHR 0x27, CHR 0x27] @ '')''
   \<and> clause (buildMovieWhereClauseAndParams [''IncludeItemTypes'' \<mapsto> ''Movie''])
       \<noteq> clause (buildMovieWhereClauseAndParams [''IncludeItemTypes'' \<mapsto> ''Series''])"
  by (simp add: clause_closed andOfSubClauses_def clause_defs)

text \<open>
  Claim C6, as amended. The clause depends only on which of the eight value-carrying filter
  keys are supplied with a non-empty value, on the number of non-empty trimmed genre tokens,
  and on whether IncludeItemTypes is \<open>Movie\<close>, \<open>Series\<close> or anything else: two argument maps
  that agree on these have the same clause, whatever the values are. The values reach the
  parameter list only.
\<close>

theorem clause_depends_on_shape_only:
  assumes "\<forall>k\<in>{''SearchTerm'', ''uniqueid_num_fuzzy'', ''uniqueid_num_prefix'', ''ParentId'',
              ''personIds'', ''studioIds'', ''seriesName''}. truthy (a k) = truthy (b k)"
    and "length (genreTokens a) = length (genreTokens b)"
    and "(a ''IncludeItemTypes'' = Some ''Movie'') = (b ''IncludeItemTypes'' = Some ''Movie'')"
    and "(a ''IncludeItemTypes'' = Some ''Series'') = (b ''IncludeItemTypes'' = Some ''Series'')"
  shows "clause (buildMovieWhereClauseAndParams a) = clause (buildMovieWhereClauseAndParams b)"
proof -
  have g: "map (\<lambda>g. ''genres LIKE ?'') (genreTokens a) = map (\<lambda>g. ''genres LIKE ?'') (genreTokens b)"
    using assms(2) by (simp add: map_replicate_const)
  have e: "(genreTokens a = []) = (genreTokens b = [])"
    using assms(2) by (metis length_0_conv)
  have "genresClause a = genresClause b"
    by (simp add: genresClause_def g e)
  moreover have "itemTypesClause a = itemTypesClause b"
    using assms(3,4) by (simp add: itemTypesClause_def)
  moreover have "searchTermClause a = searchTermClause b" "fuzzyClause a = fuzzyClause b"
    "prefixClause a = prefixClause b" "parentIdClause a = parentIdClause b"
    "personIdsClause a = personIdsClause b" "studioIdsClause a = studioIdsClause b"
    "seriesNameClause a = seriesNameClause b"
    using assms(1)
    by (simp_all add: searchTermClause_def fuzzyClause_def prefixClause_def parentIdClause_def
        personIdsClause_def studioIdsClause_def seriesNameClause_def)
  ultimately have "subClauses a = subClauses b"
    by (simp add: subClauses_def)
  then show ?thesis
    by (simp add: clause_closed andOfSubClauses_def)
qed


theorem clause_depends_on_shape_only_witness:
  "clause (buildMovieWhereClauseAndParams [''SearchTerm'' \<mapsto> ''cat'', ''Genres'' \<mapsto> ''a,b''])
   = clause (buildMovieWhereClauseAndParams
       [''SearchTerm'' \<mapsto> ''x) OR 1=1 --'', ''Genres'' \<mapsto> '' c , ,d ''])"
proof -
  let ?a = "[''SearchTerm'' \<mapsto> ''cat'', ''Genres'' \<mapsto> ''a,b'']"
  let ?b = "[''SearchTerm'' \<mapsto> ''x) OR 1=1 --'', ''Genres'' \<mapsto> '' c , ,d '']"
  have h1: "\<forall>k\<in>{''SearchTerm'', ''uniqueid_num_fuzzy'', ''uniqueid_num_prefix'', ''ParentId'',
              ''personIds'', ''studioIds'', ''seriesName''}. truthy (?a k) = truthy (?b k)"
    by (simp add: truthy_def)
  have h2: "length (genreTokens ?a) = length (genreTokens ?b)"
    by (simp add: clause_defs)
  have h3: "(?a ''IncludeItemTypes'' = Some ''Movie'') = (?b ''IncludeItemTypes'' = Some ''Movie'')"
    by simp
  have h4: "(?a ''IncludeItemTypes'' = Some ''Series'') = (?b ''IncludeItemTypes'' = Some ''Series'')"
    by simp
  show ?thesis
    by (rule clause_depends_on_shape_only [OF h1 h2 h3 h4])
qed


section \<open>Properties of the TotalPages field\<close>

lemma ceil_quotient: "P \<noteq> 0 \<Longrightarrow> - ((- N) div P) = \<lceil>real_of_int N / real_of_int P\<rceil>"
  by (simp add: ceiling_divide_eq_div)

text \<open>
  Claim C3, as amended. For a page size \<open>P > 0\<close> and \<open>N \<ge> 0\<close> matching records, the unnamed
  variants report the ceiling of \<open>N / P\<close>; movieApi.ts reports the ceiling of \<open>N / P\<close> when
  \<open>N > 0\<close> and one page when \<open>N = 0\<close>.
\<close>

theorem totalPages_ceiling:
  assumes "0 < P" and "0 \<le> N"
  shows "TotalPages_unnamed N (Some P) = Num \<lceil>real_of_int N / real_of_int P\<rceil>
       \<and> TotalPages_movieApi N (Some P)
           = (if N = 0 then Num 1 else Num \<lceil>real_of_int N / real_of_int P\<rceil>)"
proof (cases "N = 0")
  case True
  then show ?thesis
    using assms(1)
    by (simp add: TotalPages_unnamed_def TotalPages_movieApi_def orDefault_def ceilOfQuotient_def)
next
  case False
  with assms(2) have n: "0 < N" by simp
  have c: "- ((- N) div P) = \<lceil>real_of_int N / real_of_int P\<rceil>"
    using assms(1) by (simp add: ceil_quotient)
  have "0 < real_of_int N / real_of_int P"
    using n assms(1) by simp
  then have "0 < \<lceil>real_of_int N / real_of_int P\<rceil>"
    by (simp only: ceiling_less_iff less_ceiling_iff of_int_0)
  then have nz': "\<lceil>real_of_int N / real_of_int P\<rceil> \<noteq> 0"
    by linarith
  have q: "ceilOfQuotient N (Some P) = Num \<lceil>real_of_int N / real_of_int P\<rceil>"
    using assms(1) c by (simp add: ceilOfQuotient_def)
  show ?thesis
    using False nz' by (simp add: TotalPages_unnamed_def TotalPages_movieApi_def orDefault_def q)
qed

text \<open>With no matching record movieApi.ts reports one page, where the ceiling of \<open>0 / 100\<close> is
  zero.\<close>

theorem totalPages_empty_counterexample:
  "TotalPages_movieApi 0 (Some 100) = Num 1
   \<and> TotalPages_movieApi 0 (Some 100) \<noteq> Num \<lceil>real_of_int 0 / real_of_int 100\<rceil>"
  by (simp add: TotalPages_movieApi_def orDefault_def ceilOfQuotient_def)

theorem totalPages_ceiling_witness:
  "(0::int) < 40 \<and> (0::int) \<le> 101
   \<and> TotalPages_unnamed 101 (Some 40) = Num 3
   \<and> TotalPages_movieApi 101 (Some 40) = Num 3
   \<and> TotalPages_unnamed 0 (Some 40) = Num 0
   \<and> TotalPages_movieApi 0 (Some 40) = Num 1"
proof -
  have a: "(0::int) < 40" and b: "(0::int) \<le> 101" and c: "(0::int) \<le> 0" by simp_all
  have e: "\<lceil>real_of_int 101 / real_of_int 40\<rceil> = 3" by (simp add: ceiling_eq_iff)
  show ?thesis
    using totalPages_ceiling [OF a b] totalPages_ceiling [OF a c] e
    by simp
qed


section \<open>Properties of serveMovieImage\<close>









section \<open>Properties of the related-items blending\<close>

lemma genrePickLoop_invariant:
  "\<exists>new. fst (genrePickLoop N cs st) = fst st @ new
       \<and> snd (genrePickLoop N cs st) = snd st \<union> set (map Id_field new)
       \<and> set (map Id_field new) \<inter> snd st = {}
       \<and> length new \<le> length (filter (\<lambda>m. Id_field m \<notin> snd st) cs)
       \<and> (length (fst st) \<le> nat N \<longrightarrow> length (fst st @ new) \<le> nat N)"
proof (induction cs arbitrary: st)
  case Nil
  show ?case by simp
next
  case (Cons m rest)
  show ?case
  proof (cases "int (length (fst st)) \<ge> N")
    case True
    then show ?thesis by simp
  next
    case full: False
    show ?thesis
    proof (cases "idTruthy (Id_field m) \<and> Id_field m \<notin> snd st")
      case True
      let ?st' = "(fst st @ [m], insert (Id_field m) (snd st))"
      from Cons.IH [of ?st'] obtain new where
        n: "fst (genrePickLoop N rest ?st') = fst ?st' @ new"
           "snd (genrePickLoop N rest ?st') = snd ?st' \<union> set (map Id_field new)"
           "set (map Id_field new) \<inter> snd ?st' = {}"
           "length new \<le> length (filter (\<lambda>m. Id_field m \<notin> snd ?st') rest)"
           "length (fst ?st') \<le> nat N \<longrightarrow> length (fst ?st' @ new) \<le> nat N"
        by blast
      have le: "length (filter (\<lambda>x. Id_field x \<notin> snd ?st') rest)
                 \<le> length (filter (\<lambda>x. Id_field x \<notin> snd st) rest)"
      proof -
        have "filter (\<lambda>x. Id_field x \<notin> snd ?st') rest
              = filter (\<lambda>x. Id_field x \<noteq> Id_field m) (filter (\<lambda>x. Id_field x \<notin> snd st) rest)"
          by (induction rest) auto
        then show ?thesis by (simp add: length_filter_le del: filter_filter)
      qed
      have step: "genrePickLoop N (m # rest) st = genrePickLoop N rest ?st'"
        using full True by simp
      have lenN: "length (fst ?st') \<le> nat N"
        using full by simp
      show ?thesis
      proof (intro exI [of _ "m # new"] conjI)
        show "fst (genrePickLoop N (m # rest) st) = fst st @ m # new"
          using n(1) step by simp
        show "snd (genrePickLoop N (m # rest) st) = snd st \<union> set (map Id_field (m # new))"
          using n(2) step by auto
        show "set (map Id_field (m # new)) \<inter> snd st = {}"
          using n(3) True by auto
        show "length (m # new) \<le> length (filter (\<lambda>m. Id_field m \<notin> snd st) (m # rest))"
          using n(4) le True by simp
        show "length (fst st) \<le> nat N \<longrightarrow> length (fst st @ m # new) \<le> nat N"
          using n(5) lenN by simp
      qed
    next
      case False
      then have step: "genrePickLoop N (m # rest) st = genrePickLoop N rest st"
        using full by auto
      from Cons.IH [of st] obtain new where
        n: "fst (genrePickLoop N rest st) = fst st @ new"
           "snd (genrePickLoop N rest st) = snd st \<union> set (map Id_field new)"
           "set (map Id_field new) \<inter> snd st = {}"
           "length new \<le> length (filter (\<lambda>m. Id_field m \<notin> snd st) rest)"
           "length (fst st) \<le> nat N \<longrightarrow> length (fst st @ new) \<le> nat N"
        by blast
      show ?thesis
        using n step by (intro exI [of _ new]) auto
    qed
  qed
qed

text \<open>
  Claim C5. The response is the ranked list followed by the genre-random list. No \<open>Id\<close> occurs
  in both; the genre-random list is no longer than the cap (read as a count: a cap that is
  not positive gives the empty list) and no longer than the number of fetched candidates whose
  \<open>Id\<close> is not in the ranked list.
\<close>

theorem related_suffix_disjoint_bounded:
  "take (length primaryRelatedList)
       (precomputed_related NUM_RANDOM_GENRE_PICKS primaryRelatedList genreCandidatesList)
     = primaryRelatedList
   \<and> drop (length primaryRelatedList)
       (precomputed_related NUM_RANDOM_GENRE_PICKS primaryRelatedList genreCandidatesList)
     = genreRandomRelatedList NUM_RANDOM_GENRE_PICKS primaryRelatedList genreCandidatesList
   \<and> set (map Id_field primaryRelatedList)
       \<inter> set (map Id_field (genreRandomRelatedList NUM_RANDOM_GENRE_PICKS primaryRelatedList genreCandidatesList))
     = {}
   \<and> length (genreRandomRelatedList NUM_RANDOM_GENRE_PICKS primaryRelatedList genreCandidatesList)
       \<le> nat NUM_RANDOM_GENRE_PICKS
   \<and> length (genreRandomRelatedList NUM_RANDOM_GENRE_PICKS primaryRelatedList genreCandidatesList)
       \<le> length (filter (\<lambda>m. Id_field m \<notin> set (map Id_field primaryRelatedList)) genreCandidatesList)"
proof (cases "NUM_RANDOM_GENRE_PICKS > 0")
  case False
  then show ?thesis
    by (simp add: precomputed_related_def genreRandomRelatedList_def)
next
  case True
  obtain new where
    n: "fst (genrePickLoop NUM_RANDOM_GENRE_PICKS genreCandidatesList ([], set (map Id_field primaryRelatedList)))
          = new"
       "set (map Id_field new) \<inter> set (map Id_field primaryRelatedList) = {}"
       "length new \<le> length (filter (\<lambda>m. Id_field m \<notin> set (map Id_field primaryRelatedList)) genreCandidatesList)"
       "length new \<le> nat NUM_RANDOM_GENRE_PICKS"
    using genrePickLoop_invariant [of NUM_RANDOM_GENRE_PICKS genreCandidatesList
        "([], set (map Id_field primaryRelatedList))"]
    by auto
  have g: "genreRandomRelatedList NUM_RANDOM_GENRE_PICKS primaryRelatedList genreCandidatesList = new"
    using True n(1) by (simp add: genreRandomRelatedList_def)
  show ?thesis
    using n(2,3,4) by (simp only: g precomputed_related_def) auto
qed

theorem related_suffix_disjoint_bounded_witness:
  "genreRandomRelatedList 2 [\<lparr>Id_field = Some 1, Name_field = Some ''A''\<rparr>]
      [\<lparr>Id_field = Some 1, Name_field = Some ''A''\<rparr>, \<lparr>Id_field = Some 5, Name_field = Some ''B''\<rparr>,
       \<lparr>Id_field = Some 5, Name_field = Some ''B''\<rparr>, \<lparr>Id_field = None, Name_field = Some ''C''\<rparr>,
       \<lparr>Id_field = Some 6, Name_field = Some ''D''\<rparr>, \<lparr>Id_field = Some 7, Name_field = Some ''E''\<rparr>]
     = [\<lparr>Id_field = Some 5, Name_field = Some ''B''\<rparr>, \<lparr>Id_field = Some 6, Name_field = Some ''D''\<rparr>]
   \<and> drop 1 (precomputed_related 2 [\<lparr>Id_field = Some 1, Name_field = Some ''A''\<rparr>]
      [\<lparr>Id_field = Some 1, Name_field = Some ''A''\<rparr>, \<lparr>Id_field = Some 5, Name_field = Some ''B''\<rparr>,
       \<lparr>Id_field = Some 5, Name_field = Some ''B''\<rparr>, \<lparr>Id_field = None, Name_field = Some ''C''\<rparr>,
       \<lparr>Id_field = Some 6, Name_field = Some ''D''\<rparr>, \<lparr>Id_field = Some 7, Name_field = Some ''E''\<rparr>])
     = [\<lparr>Id_field = Some 5, Name_field = Some ''B''\<rparr>, \<lparr>Id_field = Some 6, Name_field = Some ''D''\<rparr>]"
proof -
  let ?p = "[\<lparr>Id_field = Some 1, Name_field = Some ''A''\<rparr>]"
  let ?c = "[\<lparr>Id_field = Some 1, Name_field = Some ''A''\<rparr>, \<lparr>Id_field = Some 5, Name_field = Some ''B''\<rparr>,
       \<lparr>Id_field = Some 5, Name_field = Some ''B''\<rparr>, \<lparr>Id_field = None, Name_field = Some ''C''\<rparr>,
       \<lparr>Id_field = Some 6, Name_field = Some ''D''\<rparr>, \<lparr>Id_field = Some 7, Name_field = Some ''E''\<rparr>]"
  have g: "genreRandomRelatedList 2 ?p ?c
     = [\<lparr>Id_field = Some 5, Name_field = Some ''B''\<rparr>, \<lparr>Id_field = Some 6, Name_field = Some ''D''\<rparr>]"
    by (simp add: genreRandomRelatedList_def idTruthy_def)
  show ?thesis
    using related_suffix_disjoint_bounded [of ?p 2 ?c] g
    by simp
qed

section \<open>Properties of the collection endpoint\<close>

lemma foldr_max_ge: "x \<in> set xs \<Longrightarrow> x \<le> foldr max xs (b::int)"
  by (induction xs) auto

lemma foldr_max_base: "(b::int) \<le> foldr max xs b"
  by (induction xs) auto

lemma fresh_id: "1 + foldr max (map fst rows) 0 \<notin> fst ` set (rows :: (int \<times> string) list)"
proof
  assume "1 + foldr max (map fst rows) 0 \<in> fst ` set rows"
  then have "1 + foldr max (map fst rows) 0 \<in> set (map fst rows)" by simp
  from foldr_max_ge [OF this, of 0] show False by simp
qed

lemma fresh_id_nonzero: "1 + foldr max (map fst (rows :: (int \<times> string) list)) 0 \<noteq> 0"
  using foldr_max_base [of 0 "map fst rows"] by simp

lemma unique_message: "includes_js ''D1_ERROR: UNIQUE constraint failed: movie_collections.name'' ''UNIQUE constraint failed''"
  by simp

text \<open>
  Claim C7. A body whose name is missing or empty after trimming is answered with 400 and the
  table is unchanged; a trimmed name that the table already holds is answered with 409 and
  the error \<open>Collection name already exists\<close>, the table unchanged; any other name is
  inserted and answered with 201, the generated id (not used by an older row) and the trimmed
  name.
\<close>

theorem postMovieCollections_outcomes:
  "(\<not> truthy (map_option trim_js payloadName) \<longrightarrow>
      postMovieCollections DB_MOVIES payloadName
        = (JsonResponse (JObject [(''error'', JString ''Name required'')]) 400, DB_MOVIES))
   \<and> (truthy (map_option trim_js payloadName) \<and> argText (map_option trim_js payloadName) \<in> snd ` set DB_MOVIES \<longrightarrow>
      postMovieCollections DB_MOVIES payloadName
        = (JsonResponse (JObject [(''error'', JString ''Collection name already exists'')]) 409, DB_MOVIES))
   \<and> (truthy (map_option trim_js payloadName) \<and> argText (map_option trim_js payloadName) \<notin> snd ` set DB_MOVIES \<longrightarrow>
      (\<exists>newId. newId \<notin> fst ` set DB_MOVIES
         \<and> postMovieCollections DB_MOVIES payloadName
           = (JsonResponse (JObject [(''id'', JNumber newId),
                 (''name'', JString (argText (map_option trim_js payloadName)))]) 201,
              DB_MOVIES @ [(newId, argText (map_option trim_js payloadName))])))"
proof (intro conjI impI)
  assume "\<not> truthy (map_option trim_js payloadName)"
  then show "postMovieCollections DB_MOVIES payloadName
        = (JsonResponse (JObject [(''error'', JString ''Name required'')]) 400, DB_MOVIES)"
    by (simp add: postMovieCollections_def)
next
  assume "truthy (map_option trim_js payloadName) \<and> argText (map_option trim_js payloadName) \<in> snd ` set DB_MOVIES"
  then show "postMovieCollections DB_MOVIES payloadName
        = (JsonResponse (JObject [(''error'', JString ''Collection name already exists'')]) 409, DB_MOVIES)"
    using unique_message
    by (simp add: postMovieCollections_def insertCollectionReturningId_def collectionCatch_def del: includes_js.simps)
next
  assume a: "truthy (map_option trim_js payloadName) \<and> argText (map_option trim_js payloadName) \<notin> snd ` set DB_MOVIES"
  let ?i = "1 + foldr max (map fst DB_MOVIES) 0"
  have "postMovieCollections DB_MOVIES payloadName
           = (JsonResponse (JObject [(''id'', JNumber ?i),
                 (''name'', JString (argText (map_option trim_js payloadName)))]) 201,
              DB_MOVIES @ [(?i, argText (map_option trim_js payloadName))])"
    using a fresh_id_nonzero [of DB_MOVIES]
    by (simp add: postMovieCollections_def insertCollectionReturningId_def Let_def)
  with fresh_id [of DB_MOVIES]
  show "\<exists>newId. newId \<notin> fst ` set DB_MOVIES
         \<and> postMovieCollections DB_MOVIES payloadName
           = (JsonResponse (JObject [(''id'', JNumber newId),
                 (''name'', JString (argText (map_option trim_js payloadName)))]) 201,
              DB_MOVIES @ [(newId, argText (map_option trim_js payloadName))])"
    by blast
qed

theorem postMovieCollections_outcomes_witness:
  "postMovieCollections [] (Some '' Favorites '')
     = (JsonResponse (JObject [(''id'', JNumber 1), (''name'', JString ''Favorites'')]) 201, [(1, ''Favorites'')])
   \<and> postMovieCollections [(1, ''Favorites'')] (Some ''Favorites'')
     = (JsonResponse (JObject [(''error'', JString ''Collection name already exists'')]) 409, [(1, ''Favorites'')])
   \<and> postMovieCollections [(1, ''Favorites'')] (Some ''   '')
     = (JsonResponse (JObject [(''error'', JString ''Name required'')]) 400, [(1, ''Favorites'')])
   \<and> postMovieCollections [(1, ''Favorites'')] None
     = (JsonResponse (JObject [(''error'', JString ''Name required'')]) 400, [(1, ''Favorites'')])"
proof -
  have t1: "trim_js '' Favorites '' = ''Favorites''"
    and t2: "trim_js ''Favorites'' = ''Favorites''"
    and t3: "trim_js ''   '' = []"
    by (simp_all add: trim_js_def isWhiteSpace_def)
  have c1: "postMovieCollections [] (Some '' Favorites '')
     = (JsonResponse (JObject [(''id'', JNumber 1), (''name'', JString ''Favorites'')]) 201, [(1, ''Favorites'')])"
    by (simp add: postMovieCollections_def t1 Let_def truthy_def argText_def insertCollectionReturningId_def)
  have c2: "postMovieCollections [(1, ''Favorites'')] (Some ''Favorites'')
     = (JsonResponse (JObject [(''error'', JString ''Collection name already exists'')]) 409, [(1, ''Favorites'')])"
    using postMovieCollections_outcomes [of "Some ''Favorites''" "[(1, ''Favorites'')]"]
    by (simp add: t2 truthy_def argText_def)
  have c3: "postMovieCollections [(1, ''Favorites'')] (Some ''   '')
     = (JsonResponse (JObject [(''error'', JString ''Name required'')]) 400, [(1, ''Favorites'')])"
    using postMovieCollections_outcomes [of "Some ''   ''" "[(1, ''Favorites'')]"]
    by (simp add: t3 truthy_def)
  have c4: "postMovieCollections [(1, ''Favorites'')] None
     = (JsonResponse (JObject [(''error'', JString ''Name required'')]) 400, [(1, ''Favorites'')])"
    using postMovieCollections_outcomes [of None "[(1, ''Favorites'')]"]
    by (simp add: truthy_def)
  show ?thesis
    using c1 c2 c3 c4 by simp
qed

end
